theory Spec2Isabelle
  imports Main "HOL-Library.Sublist"
begin

section \<open>The native driver of the bblfsh SDK (driver/native/native.go)\<close>

text \<open>
  The package wraps a child process that parses source code. The parent writes one JSON
  request per line to the child's standard input and reads one JSON response per line from
  its standard output. This theory embeds the package: the encodings, the construction of a
  driver, and the three methods \<open>Start\<close>, \<open>Parse\<close> and \<open>Close\<close>.

  Go strings are byte sequences: they are \<open>string\<close> here (a list of 8-bit \<open>char\<close>).
  The operating system, the child process and the line framer are outside the package. They
  are a record of functions over an abstract world \<open>'w\<close>; every call the package makes to
  them is appended to a trace, so that the order and the number of calls can be stated.
  The embedding is sequential: one goroutine runs one method at a time, and no other
  goroutine holds the request mutex when \<open>Parse\<close> locks it.
\<close>

subsection \<open>Errors\<close>

text \<open>
  Errors that the collaborators return (packages os, os/exec, encoding/json, jsonlines and
  nodes). \<open>Close\<close> inspects one shape: a \<open>*os.PathError\<close> whose \<open>Err\<close> field is the value
  \<open>os.ErrClosed\<close>. Any other error is known by its message only.
\<close>

datatype ext_error =
    ErrClosed
  | PathError string string ext_error
  | OtherError string

text \<open>The method \<open>Error()\<close> of these errors, which \<open>%v\<close> prints.\<close>

fun ext_Error :: "ext_error \<Rightarrow> string" where
  "ext_Error ErrClosed = ''file already closed''"
| "ext_Error (PathError opn path err) = opn @ '' '' @ path @ '': '' @ ext_Error err"
| "ext_Error (OtherError msg) = msg"

text \<open>
  Errors that the package returns. \<open>'n\<close> is the type of the non-nil values of
  \<open>nodes.Node\<close>; the interface value, which may be nil, is \<open>'n option\<close>.
  \<open>Errorf\<close> is an error made by \<open>fmt.Errorf\<close>, with its formatted text.
  \<open>CorruptInputError\<close> is the error of \<open>base64.StdEncoding.DecodeString\<close> (the byte
  offset it carries is left out). \<open>External\<close> is an error of a collaborator that the package
  returns as it is.
\<close>

text \<open>
  Modelled from the spec: the constructors \<open>driver.PartialParse\<close> and \<open>driver.MultiError\<close>
  are in package driver, whose source is not part of this development. The spec gives them
  as failure constructors, one carrying a tree and a list of strings, one carrying a list of
  strings; they are the constructors \<open>PartialParse\<close> and \<open>MultiError\<close> of the datatype.
\<close>

datatype 'n error =
    ErrNotRunning
  | Errorf string
  | CorruptInputError
  | PartialParse "'n option" "string list"
  | MultiError "string list"
  | External ext_error

subsection \<open>strings.ToLower\<close>

text \<open>
  \<open>strings.ToLower\<close> lowers the letters A to Z of a string whose bytes are all below
  0x80. On any other string it maps \<open>unicode.ToLower\<close> over the runes; that mapping
  is the parameter \<open>unicode_lower\<close>.
\<close>

definition lower_ascii :: "char \<Rightarrow> char" where
  "lower_ascii c =
     (if (65::nat) \<le> of_char c \<and> of_char c \<le> (90::nat) then char_of (of_char c + (32::nat)) else c)"

definition ToLower :: "(string \<Rightarrow> string) \<Rightarrow> string \<Rightarrow> string" where
  "ToLower unicode_lower s =
     (if list_all (\<lambda>c. of_char c < (128::nat)) s then map lower_ascii s else unicode_lower s)"

subsection \<open>encoding/base64, the standard encoding\<close>

text \<open>
  Modelled from the spec: \<open>base64.StdEncoding\<close> belongs to Go's standard library, not to
  this package. The spec says that base64 "standard-alphabet-encodes the raw bytes of the
  text" and that decoding malformed input fails. The definitions follow RFC 4648 with
  padding, as the library does: three bytes become four characters of the alphabet; the
  decoder skips carriage returns and line feeds, asks for complete padding, refuses
  anything after the padding and ignores the unused low bits of the last character.
\<close>

definition encodeStd :: string where
  "encodeStd = ''ABCDEFGHIJKLMNOPQRSTUVWXYZabcdefghijklmnopqrstuvwxyz0123456789+/''"

definition padChar :: char where
  "padChar = CHR ''=''"

definition encode6 :: "nat \<Rightarrow> char" where
  "encode6 v = encodeStd ! (v mod 64)"

fun index_of :: "'a \<Rightarrow> 'a list \<Rightarrow> nat option" where
  "index_of x [] = None"
| "index_of x (y # ys) = (if x = y then Some 0 else map_option Suc (index_of x ys))"

definition decodeMap :: "char \<Rightarrow> nat option" where
  "decodeMap c = index_of c encodeStd"

fun EncodeToString :: "string \<Rightarrow> string" where
  "EncodeToString (a # b # c # src) =
     (let val = of_char a * 65536 + of_char b * 256 + of_char c
      in encode6 (val div 262144) # encode6 (val div 4096) # encode6 (val div 64) # encode6 val
           # EncodeToString src)"
| "EncodeToString [a, b] =
     (let val = of_char a * 65536 + of_char b * 256
      in [encode6 (val div 262144), encode6 (val div 4096), encode6 (val div 64), padChar])"
| "EncodeToString [a] =
     (let val = of_char a * 65536
      in [encode6 (val div 262144), encode6 (val div 4096), padChar, padChar])"
| "EncodeToString [] = []"

definition isNL :: "char \<Rightarrow> bool" where
  "isNL c = (c = CHR 0x0A \<or> c = CHR 0x0D)"

definition skipNL :: "string \<Rightarrow> string" where
  "skipNL src = dropWhile isNL src"

definition dbuf_at :: "nat list \<Rightarrow> nat \<Rightarrow> nat" where
  "dbuf_at dbuf j = (if j < length dbuf then dbuf ! j else 0)"

text \<open>The bytes of one quantum: \<open>dbuf\<close> holds the two, three or four 6-bit values read.\<close>

definition quantum_bytes :: "nat list \<Rightarrow> string" where
  "quantum_bytes dbuf =
     (let val = dbuf_at dbuf 0 * 262144 + dbuf_at dbuf 1 * 4096 + dbuf_at dbuf 2 * 64 + dbuf_at dbuf 3
      in take (length dbuf - 1) [char_of (val div 65536), char_of (val div 256), char_of val])"

text \<open>
  The decoding loop. \<open>dbuf\<close> holds the 6-bit values of the quantum being read. The result
  is \<open>None\<close> where the library returns a \<open>CorruptInputError\<close>.
\<close>

fun Decode_from :: "nat list \<Rightarrow> string \<Rightarrow> string option" where
  "Decode_from dbuf [] = (if dbuf = [] then Some [] else None)"
| "Decode_from dbuf (c # src) =
     (case decodeMap c of
        Some out \<Rightarrow>
          (if length dbuf = 3
           then (case Decode_from [] src of
                   None \<Rightarrow> None
                 | Some rest \<Rightarrow> Some (quantum_bytes (dbuf @ [out]) @ rest))
           else Decode_from (dbuf @ [out]) src)
      | None \<Rightarrow>
          (if isNL c then Decode_from dbuf src
           else if c \<noteq> padChar then None
           else if length dbuf < 2 then None
           else if length dbuf = 2 then
             (case skipNL src of
                [] \<Rightarrow> None
              | c2 # src2 \<Rightarrow>
                  (if c2 \<noteq> padChar then None
                   else if skipNL src2 \<noteq> [] then None
                   else Some (quantum_bytes dbuf)))
           else (if skipNL src \<noteq> [] then None else Some (quantum_bytes dbuf))))"

definition DecodeString :: "string \<Rightarrow> string option" where
  "DecodeString s = Decode_from [] s"

subsection \<open>Encoding\<close>

text \<open>\<open>type Encoding string\<close>, with the constants \<open>UTF8\<close> and \<open>Base64\<close>.\<close>

type_synonym Encoding = string

definition UTF8 :: Encoding where
  "UTF8 = ''utf8''"

definition Base64 :: Encoding where
  "Base64 = ''base64''"

text \<open>
  \<open>Encoding.UnmarshalJSON\<close>. The argument is what \<open>json.Unmarshal(data, &str)\<close> gave:
  an error or the string.
\<close>

definition Encoding_UnmarshalJSON ::
  "(string \<Rightarrow> string) \<Rightarrow> ext_error + string \<Rightarrow> ext_error + Encoding" where
  "Encoding_UnmarshalJSON unicode_lower unmarshalled =
     (case unmarshalled of
        Inl err \<Rightarrow> Inl err
      | Inr str \<Rightarrow> Inr (ToLower unicode_lower str))"

text \<open>\<open>Encoding.Encode\<close>: \<open>%v\<close> prints an \<open>Encoding\<close> as the string it is.\<close>

definition Encoding_Encode :: "Encoding \<Rightarrow> string \<Rightarrow> 'n error + string" where
  "Encoding_Encode e s =
     (if e = UTF8 then Inr s
      else if e = Base64 then Inr (EncodeToString s)
      else Inl (Errorf (''invalid Encoding: '' @ e)))"

text \<open>\<open>Encoding.Decode\<close>.\<close>

definition Encoding_Decode :: "Encoding \<Rightarrow> string \<Rightarrow> 'n error + string" where
  "Encoding_Decode e s =
     (if e = UTF8 then Inr s
      else if e = Base64 then
        (case DecodeString s of
           None \<Rightarrow> Inl CorruptInputError
         | Some b \<Rightarrow> Inr b)
      else Inl (Errorf (''invalid Encoding: '' @ e)))"

subsection \<open>Wire types\<close>

text \<open>\<open>parseRequest\<close>: the request written to the child.\<close>

record parseRequest =
  Content :: string
  Encoding :: Encoding

text \<open>\<open>type status string\<close>, with the three constants the driver knows.\<close>

type_synonym status = string

definition statusOK :: status where
  "statusOK = ''ok''"

definition statusError :: status where
  "statusError = ''error''"

definition statusFatal :: status where
  "statusFatal = ''fatal''"

text \<open>
  \<open>status.UnmarshalJSON\<close>. The argument is what \<open>json.Unmarshal(data, &str)\<close> gave.
\<close>

definition status_UnmarshalJSON ::
  "(string \<Rightarrow> string) \<Rightarrow> ext_error + string \<Rightarrow> ext_error + status" where
  "status_UnmarshalJSON unicode_lower unmarshalled =
     (case unmarshalled of
        Inl err \<Rightarrow> Inl err
      | Inr str \<Rightarrow> Inr (ToLower unicode_lower str))"

text \<open>\<open>parseResponse\<close>: the reply of the child, after decoding.\<close>

record 'n parseResponse =
  Status :: status
  Errors :: "string list"
  AST :: "'n option"

text \<open>
  What \<open>json.Unmarshal\<close> finds in one response line, field by field, before the
  package's own unmarshalers run: the outcome of reading the status as a JSON string,
  the error strings, and the tree as an untyped value of type \<open>'j\<close> (\<open>interface{}\<close>).
\<close>

record 'j wire_response =
  wire_status :: "ext_error + string"
  wire_errors :: "string list"
  wire_ast :: 'j

subsection \<open>The collaborators and the trace of calls\<close>

text \<open>A pipe end is known by a number; a command (\<open>*exec.Cmd\<close>) by the path it runs.\<close>

type_synonym pipe = nat

record ('w, 'j, 'n) collaborators =
  cmd_StdinPipe :: "string \<Rightarrow> 'w \<Rightarrow> (ext_error + pipe) \<times> 'w"
  cmd_StdoutPipe :: "string \<Rightarrow> 'w \<Rightarrow> (ext_error + pipe) \<times> 'w"
  cmd_Start :: "string \<Rightarrow> 'w \<Rightarrow> ext_error option \<times> 'w"
  cmd_Wait :: "string \<Rightarrow> 'w \<Rightarrow> ext_error option \<times> 'w"
  pipe_Close :: "pipe \<Rightarrow> 'w \<Rightarrow> ext_error option \<times> 'w"
  jsonlines_Encode :: "pipe \<Rightarrow> parseRequest \<Rightarrow> 'w \<Rightarrow> ext_error option \<times> 'w"
  jsonlines_Decode_raw :: "pipe \<Rightarrow> 'w \<Rightarrow> (ext_error + string) \<times> 'w"
  jsonlines_Decode :: "pipe \<Rightarrow> 'w \<Rightarrow> (ext_error + 'j wire_response) \<times> 'w"
  nodes_ToNode :: "'j \<Rightarrow> ext_error + 'n option"
  unicode_ToLower :: "string \<Rightarrow> string"

datatype event =
    EvStdinPipe "ext_error + pipe"
  | EvStdoutPipe "ext_error + pipe"
  | EvStart
  | EvWait
  | EvClose pipe
  | EvLock
  | EvUnlock
  | EvEncode pipe parseRequest
  | EvDecodeRaw pipe
  | EvDecode pipe

record 'w system =
  world :: 'w
  trace :: "event list"

definition log_event :: "event \<Rightarrow> 'w \<Rightarrow> 'w system \<Rightarrow> 'w system" where
  "log_event ev w s = \<lparr>world = w, trace = trace s @ [ev]\<rparr>"

definition call_StdinPipe ::
  "('w, 'j, 'n) collaborators \<Rightarrow> string \<Rightarrow> 'w system \<Rightarrow> (ext_error + pipe) \<times> 'w system" where
  "call_StdinPipe os c s =
     (case cmd_StdinPipe os c (world s) of (r, w) \<Rightarrow> (r, log_event (EvStdinPipe r) w s))"

definition call_StdoutPipe ::
  "('w, 'j, 'n) collaborators \<Rightarrow> string \<Rightarrow> 'w system \<Rightarrow> (ext_error + pipe) \<times> 'w system" where
  "call_StdoutPipe os c s =
     (case cmd_StdoutPipe os c (world s) of (r, w) \<Rightarrow> (r, log_event (EvStdoutPipe r) w s))"

definition call_Start ::
  "('w, 'j, 'n) collaborators \<Rightarrow> string \<Rightarrow> 'w system \<Rightarrow> ext_error option \<times> 'w system" where
  "call_Start os c s =
     (case cmd_Start os c (world s) of (r, w) \<Rightarrow> (r, log_event EvStart w s))"

definition call_Wait ::
  "('w, 'j, 'n) collaborators \<Rightarrow> string \<Rightarrow> 'w system \<Rightarrow> ext_error option \<times> 'w system" where
  "call_Wait os c s =
     (case cmd_Wait os c (world s) of (r, w) \<Rightarrow> (r, log_event EvWait w s))"

definition call_Close ::
  "('w, 'j, 'n) collaborators \<Rightarrow> pipe \<Rightarrow> 'w system \<Rightarrow> ext_error option \<times> 'w system" where
  "call_Close os p s =
     (case pipe_Close os p (world s) of (r, w) \<Rightarrow> (r, log_event (EvClose p) w s))"

definition call_Encode ::
  "('w, 'j, 'n) collaborators \<Rightarrow> pipe \<Rightarrow> parseRequest \<Rightarrow> 'w system
     \<Rightarrow> ext_error option \<times> 'w system" where
  "call_Encode os p req s =
     (case jsonlines_Encode os p req (world s) of (r, w) \<Rightarrow> (r, log_event (EvEncode p req) w s))"

definition call_Decode_raw ::
  "('w, 'j, 'n) collaborators \<Rightarrow> pipe \<Rightarrow> 'w system \<Rightarrow> (ext_error + string) \<times> 'w system" where
  "call_Decode_raw os p s =
     (case jsonlines_Decode_raw os p (world s) of (r, w) \<Rightarrow> (r, log_event (EvDecodeRaw p) w s))"

text \<open>
  \<open>parseResponse.UnmarshalJSON\<close>: \<open>json.Unmarshal\<close> into the local struct runs
  \<open>status.UnmarshalJSON\<close> on the status; then \<open>nodes.ToNode\<close> converts the tree.
\<close>

definition parseResponse_UnmarshalJSON ::
  "('w, 'j, 'n) collaborators \<Rightarrow> 'j wire_response \<Rightarrow> ext_error + 'n parseResponse" where
  "parseResponse_UnmarshalJSON os resp =
     (case status_UnmarshalJSON (unicode_ToLower os) (wire_status resp) of
        Inl err \<Rightarrow> Inl err
      | Inr st \<Rightarrow>
          (case nodes_ToNode os (wire_ast resp) of
             Inl err \<Rightarrow> Inl err
           | Inr ast \<Rightarrow> Inr \<lparr>Status = st, Errors = wire_errors resp, AST = ast\<rparr>))"

text \<open>\<open>d.dec.Decode(&r)\<close> with \<open>r\<close> a \<open>parseResponse\<close>: one line is read and unmarshalled.\<close>

definition call_Decode ::
  "('w, 'j, 'n) collaborators \<Rightarrow> pipe \<Rightarrow> 'w system
     \<Rightarrow> (ext_error + 'n parseResponse) \<times> 'w system" where
  "call_Decode os p s =
     (case jsonlines_Decode os p (world s) of
        (Inl err, w) \<Rightarrow> (Inl err, log_event (EvDecode p) w s)
      | (Inr resp, w) \<Rightarrow> (parseResponse_UnmarshalJSON os resp, log_event (EvDecode p) w s))"

subsection \<open>The driver\<close>

text \<open>
  \<open>Driver\<close>. The encoder writes to the input pipe and the decoder reads from the output
  pipe, so each is the pipe it is bound to. \<open>None\<close> is Go's nil. The mutex has no field:
  its lock and unlock are events of the trace.
\<close>

record Driver =
  bin :: string
  ec :: Encoding
  running :: bool
  enc :: "pipe option"
  dec :: "pipe option"
  stdin :: "pipe option"
  stdout :: "pipe option"
  cmd :: "string option"

text \<open>
  \<open>Binary\<close> is a package variable. Its initial value is the constant \<open>Binary\<close>; the
  value it holds when a driver is made is the first argument of the constructors.
\<close>

definition Binary :: string where
  "Binary = ''/opt/driver/bin/native''"

definition NewDriverAt :: "string \<Rightarrow> string \<Rightarrow> Encoding \<Rightarrow> Driver" where
  "NewDriverAt binary b e =
     (let b1 = (if b = [] then binary else b);
          e1 = (if e = [] then UTF8 else e)
      in \<lparr>bin = b1, ec = e1, running = False, enc = None, dec = None,
          stdin = None, stdout = None, cmd = None\<rparr>)"

definition NewDriver :: "string \<Rightarrow> Encoding \<Rightarrow> Driver" where
  "NewDriver binary e = NewDriverAt binary [] e"

text \<open>A method returns, or it panics (a call on a nil pipe or a nil command).\<close>

datatype 'a outcome = Returns 'a | Panics

text \<open>\<open>Driver.Start\<close>: the error (\<open>None\<close> is nil), the driver and the system after the call.\<close>

definition Start ::
  "('w, 'j, 'n) collaborators \<Rightarrow> Driver \<Rightarrow> 'w system \<Rightarrow> ext_error option \<times> Driver \<times> 'w system" where
  "Start os d s =
     (let d1 = d\<lparr>cmd := Some (bin d)\<rparr>
      in case call_StdinPipe os (bin d) s of
           (Inl err, s1) \<Rightarrow> (Some err, d1, s1)
         | (Inr inp, s1) \<Rightarrow>
             (case call_StdoutPipe os (bin d) s1 of
                (Inl err, s2) \<Rightarrow> (Some err, d1, snd (call_Close os inp s2))
              | (Inr outp, s2) \<Rightarrow>
                  (let d2 = d1\<lparr>stdin := Some inp, stdout := Some outp,
                                enc := Some inp, dec := Some outp\<rparr>
                   in case call_Start os (bin d) s2 of
                        (None, s3) \<Rightarrow> (None, d2\<lparr>running := True\<rparr>, s3)
                      | (Some err, s3) \<Rightarrow>
                          (Some err, d2, snd (call_Close os outp (snd (call_Close os inp s3)))))))"

text \<open>The switch at the end of \<open>Parse\<close>: \<open>%v\<close> prints a \<open>status\<close> as the string it is.\<close>

definition classify :: "'n parseResponse \<Rightarrow> 'n option \<times> 'n error option" where
  "classify r =
     (if Status r = statusOK then (AST r, None)
      else if Status r = statusError then (None, Some (PartialParse (AST r) (Errors r)))
      else if Status r = statusFatal then (None, Some (MultiError (Errors r)))
      else (None, Some (Errorf (''unsupported status: '' @ Status r))))"

text \<open>
  \<open>Driver.Parse\<close>. The deferred unlock runs on every path after the lock, also when the
  call panics.
\<close>

definition Parse ::
  "('w, 'j, 'n) collaborators \<Rightarrow> Driver \<Rightarrow> string \<Rightarrow> 'w system
     \<Rightarrow> ('n option \<times> 'n error option) outcome \<times> 'w system" where
  "Parse os d src s =
     (if \<not> running d then (Returns (None, Some ErrNotRunning), s)
      else case Encoding_Encode (ec d) src of
        Inl err \<Rightarrow> (Returns (None, Some err), s)
      | Inr str \<Rightarrow>
          (let s1 = log_event EvLock (world s) s
           in case enc d of
                None \<Rightarrow> (Panics, log_event EvUnlock (world s1) s1)
              | Some e \<Rightarrow>
                  (case call_Encode os e \<lparr>Content = str, Encoding = ec d\<rparr> s1 of
                     (Some err, s2) \<Rightarrow>
                       (case dec d of
                          None \<Rightarrow> (Panics, log_event EvUnlock (world s2) s2)
                        | Some dc \<Rightarrow>
                            (case call_Decode_raw os dc s2 of
                               (Inl err2, s3) \<Rightarrow>
                                 (Returns (None, Some (External err2)),
                                  log_event EvUnlock (world s3) s3)
                             | (Inr raw, s3) \<Rightarrow>
                                 (Returns (None,
                                    Some (Errorf (''error: '' @ ext_Error err @ ''; '' @ raw))),
                                  log_event EvUnlock (world s3) s3)))
                   | (None, s2) \<Rightarrow>
                       (case dec d of
                          None \<Rightarrow> (Panics, log_event EvUnlock (world s2) s2)
                        | Some dc \<Rightarrow>
                            (case call_Decode os dc s2 of
                               (Inl err, s3) \<Rightarrow>
                                 (Returns (None, Some (External err)),
                                  log_event EvUnlock (world s3) s3)
                             | (Inr r, s3) \<Rightarrow>
                                 (Returns (classify r), log_event EvUnlock (world s3) s3))))))"

text \<open>
  \<open>Driver.Close\<close>: the error (\<open>None\<close> is nil), the driver and the system after the
  call. The method assigns no field of the driver.
\<close>

definition is_closed_PathError :: "ext_error option \<Rightarrow> bool" where
  "is_closed_PathError err2 =
     (case err2 of
        Some (PathError opn path inner) \<Rightarrow> inner = ErrClosed
      | _ \<Rightarrow> False)"

definition Close ::
  "('w, 'j, 'n) collaborators \<Rightarrow> Driver \<Rightarrow> 'w system
     \<Rightarrow> ext_error option outcome \<times> Driver \<times> 'w system" where
  "Close os d s =
     (case stdin d of
        None \<Rightarrow> (Panics, d, s)
      | Some inp \<Rightarrow>
          (case call_Close os inp s of
             (last0, s1) \<Rightarrow>
               (case cmd d of
                  None \<Rightarrow> (Panics, d, s1)
                | Some c \<Rightarrow>
                    (case call_Wait os c s1 of
                       (err, s2) \<Rightarrow>
                         (case stdout d of
                            None \<Rightarrow> (Panics, d, s2)
                          | Some outp \<Rightarrow>
                              (case call_Close os outp s2 of
                                 (err2, s3) \<Rightarrow>
                                   if err \<noteq> None then (Returns err, d, s3)
                                   else
                                     (let err2a = (if is_closed_PathError err2 then None else err2);
                                          last1 = (if err2a \<noteq> None then err2a else last0)
                                      in (Returns last1, d, s3))))))))"

subsection \<open>A test double for the collaborators\<close>

text \<open>
  A world whose collaborators answer from a fixed script and never change it. The untyped
  tree and the tree are both strings, and \<open>nodes.ToNode\<close> keeps the value.
\<close>

record script =
  on_StdinPipe :: "ext_error + pipe"
  on_StdoutPipe :: "ext_error + pipe"
  on_Start :: "ext_error option"
  on_Wait :: "ext_error option"
  on_Close :: "pipe \<Rightarrow> ext_error option"
  on_Encode :: "ext_error option"
  on_Decode_raw :: "ext_error + string"
  on_Decode :: "ext_error + string wire_response"

definition scripted :: "(script, string, string) collaborators" where
  "scripted =
     \<lparr>cmd_StdinPipe = (\<lambda>c w. (on_StdinPipe w, w)),
      cmd_StdoutPipe = (\<lambda>c w. (on_StdoutPipe w, w)),
      cmd_Start = (\<lambda>c w. (on_Start w, w)),
      cmd_Wait = (\<lambda>c w. (on_Wait w, w)),
      pipe_Close = (\<lambda>p w. (on_Close w p, w)),
      jsonlines_Encode = (\<lambda>p req w. (on_Encode w, w)),
      jsonlines_Decode_raw = (\<lambda>p w. (on_Decode_raw w, w)),
      jsonlines_Decode = (\<lambda>p w. (on_Decode w, w)),
      nodes_ToNode = (\<lambda>j. Inr (Some j)),
      unicode_ToLower = (\<lambda>s. s)\<rparr>"

text \<open>A script where every call succeeds: pipes 3 and 4, a response \<open>ok\<close> with a tree.\<close>

definition healthy :: script where
  "healthy =
     \<lparr>on_StdinPipe = Inr 3, on_StdoutPipe = Inr 4, on_Start = None, on_Wait = None,
      on_Close = (\<lambda>p. None), on_Encode = None, on_Decode_raw = Inr ''{}'',
      on_Decode = Inr \<lparr>wire_status = Inr ''ok'', wire_errors = [], wire_ast = ''tree''\<rparr>\<rparr>"

text \<open>A driver as a successful \<open>Start\<close> on the healthy script leaves it.\<close>

definition started :: Driver where
  "started =
     \<lparr>bin = Binary, ec = UTF8, running = True, enc = Some 3, dec = Some 4,
      stdin = Some 3, stdout = Some 4, cmd = Some Binary\<rparr>"

definition fresh :: "script \<Rightarrow> script system" where
  "fresh w = \<lparr>world = w, trace = []\<rparr>"

text \<open>Scripts for three replies of the child: a partial parse, a crash, an unknown status.\<close>

definition partial_reply :: script where
  "partial_reply = healthy\<lparr>on_Decode :=
     Inr \<lparr>wire_status = Inr ''Error'', wire_errors = [''E1'', ''E2''], wire_ast = ''half''\<rparr>\<rparr>"

definition crashed :: script where
  "crashed = healthy\<lparr>on_Encode := Some (OtherError ''write |1: broken pipe''),
                     on_Decode_raw := Inr ''core dumped''\<rparr>"

definition unknown_reply :: script where
  "unknown_reply = healthy\<lparr>on_Decode :=
     Inr \<lparr>wire_status = Inr ''UNKNOWN'', wire_errors = [], wire_ast = ''tree''\<rparr>\<rparr>"

text \<open>
  Scripts for failures of the lifecycle: the output pipe is refused; the process cannot be
  started; the input pipe fails to close and the wait fails; the output pipe is already
  closed.
\<close>

definition refused :: script where
  "refused = healthy\<lparr>on_StdoutPipe := Inl (OtherError ''too many open files'')\<rparr>"

definition no_exec :: script where
  "no_exec = healthy\<lparr>on_Start := Some (OtherError ''exec: not found'')\<rparr>"

definition two_failures :: script where
  "two_failures = healthy\<lparr>on_Close := (\<lambda>p. if p = 3 then Some (OtherError ''E1'') else None),
                          on_Wait := Some (OtherError ''E2'')\<rparr>"

definition closed_twice :: script where
  "closed_twice = healthy\<lparr>on_Close :=
     (\<lambda>p. if p = 4 then Some (PathError ''close'' ''|0'' ErrClosed) else None)\<rparr>"

text \<open>A started driver whose encoding is neither \<open>utf8\<close> nor \<open>base64\<close>.\<close>

definition latin1 :: Driver where
  "latin1 = started\<lparr>ec := ''latin1''\<rparr>"

text \<open>
  The first error of the three steps of \<open>Close\<close>, taken in their order, an already-closed
  error of the output pipe counting as none. This is the reading of "returns the first
  error encountered"; \<open>Close\<close> is compared with it below.
\<close>

definition first_error ::
  "ext_error option \<Rightarrow> ext_error option \<Rightarrow> ext_error option \<Rightarrow> ext_error option" where
  "first_error e1 e2 e3 =
     (if e1 \<noteq> None then e1
      else if e2 \<noteq> None then e2
      else if is_closed_PathError e3 then None
      else e3)"

text \<open>
  A running driver is wired: its pipes, its encoder, its decoder and its command are set.
  The fields are unexported and only \<open>Start\<close> sets the flag, after it has set the others.
\<close>

definition wired :: "Driver \<Rightarrow> bool" where
  "wired d =
     (if running d
      then enc d \<noteq> None \<and> dec d \<noteq> None \<and> stdin d \<noteq> None \<and> stdout d \<noteq> None \<and> cmd d \<noteq> None
      else True)"

text \<open>
  A world that remembers which pipes are closed, as a list of them. The pipes acquired
  are 3 and 4 and the process starts and exits without error. Closing a closed pipe,
  writing to one and reading from one fail with a path error that holds \<open>os.ErrClosed\<close>;
  on an open pipe the child answers \<open>ok\<close>.
\<close>

definition closing :: "(pipe list, string, string) collaborators" where
  "closing =
     \<lparr>cmd_StdinPipe = (\<lambda>c w. (Inr 3, w)),
      cmd_StdoutPipe = (\<lambda>c w. (Inr 4, w)),
      cmd_Start = (\<lambda>c w. (None, w)),
      cmd_Wait = (\<lambda>c w. (None, w)),
      pipe_Close = (\<lambda>p w. (if p \<in> set w then Some (PathError ''close'' ''|'' ErrClosed) else None,
                             p # w)),
      jsonlines_Encode =
        (\<lambda>p req w. (if p \<in> set w then Some (PathError ''write'' ''|1'' ErrClosed) else None, w)),
      jsonlines_Decode_raw =
        (\<lambda>p w. (if p \<in> set w then Inl (PathError ''read'' ''|0'' ErrClosed) else Inr ''{}'', w)),
      jsonlines_Decode =
        (\<lambda>p w. (if p \<in> set w then Inl (PathError ''read'' ''|0'' ErrClosed)
                else Inr \<lparr>wire_status = Inr ''ok'', wire_errors = [], wire_ast = ''tree''\<rparr>, w)),
      nodes_ToNode = (\<lambda>j. Inr (Some j)),
      unicode_ToLower = (\<lambda>s. s)\<rparr>"

text \<open>The events that a call appended to the trace, and the pipes they open and close.\<close>

definition new_events :: "'w system \<Rightarrow> 'w system \<Rightarrow> event list" where
  "new_events s s' = drop (length (trace s)) (trace s')"

fun pipes_acquired :: "event list \<Rightarrow> pipe list" where
  "pipes_acquired [] = []"
| "pipes_acquired (EvStdinPipe (Inr p) # evs) = p # pipes_acquired evs"
| "pipes_acquired (EvStdoutPipe (Inr p) # evs) = p # pipes_acquired evs"
| "pipes_acquired (ev # evs) = pipes_acquired evs"

fun pipes_closed :: "event list \<Rightarrow> pipe list" where
  "pipes_closed [] = []"
| "pipes_closed (EvClose p # evs) = p # pipes_closed evs"
| "pipes_closed (ev # evs) = pipes_closed evs"

section \<open>Properties\<close>

subsection \<open>Base64 decoding inverts encoding\<close>

lemma index_of_nth: "distinct xs \<Longrightarrow> k < length xs \<Longrightarrow> index_of (xs ! k) xs = Some k"
proof (induction xs arbitrary: k)
  case Nil
  then show ?case by simp
next
  case (Cons x xs)
  show ?case
  proof (cases k)
    case 0
    then show ?thesis by simp
  next
    case (Suc m)
    with Cons.prems have "xs ! m \<noteq> x" "distinct xs" "m < length xs"
      by (auto simp: in_set_conv_nth)
    with Cons.IH [of m] Suc show ?thesis by simp
  qed
qed

lemma distinct_encodeStd: "distinct encodeStd"
  by (simp add: encodeStd_def)

lemma length_encodeStd: "length encodeStd = 64"
  by (simp add: encodeStd_def)

lemma decodeMap_encode6: "decodeMap (encode6 v) = Some (v mod 64)"
  unfolding decodeMap_def encode6_def
  by (rule index_of_nth [OF distinct_encodeStd]) (simp add: length_encodeStd)



lemma sextets_val:
  fixes v :: nat
  assumes "v < 16777216"
  shows "(v div 262144) mod 64 * 262144 + (v div 4096) mod 64 * 4096 + (v div 64) mod 64 * 64 + v mod 64 = v"
proof -
  define q1 q2 q3 r0 r1 r2 where "q1 = v div 64" and "q2 = q1 div 64" and "q3 = q2 div 64"
    and "r0 = v mod 64" and "r1 = q1 mod 64" and "r2 = q2 mod 64"
  have d2: "v div 4096 = q2"
    unfolding q2_def q1_def by (simp add: div_mult2_eq [symmetric])
  have d3: "v div 262144 = q3"
    unfolding q3_def q2_def q1_def by (simp add: div_mult2_eq [symmetric])
  have "q3 < 64"
    unfolding d3 [symmetric] using assms by (simp add: less_mult_imp_div_less)
  then have m3: "q3 mod 64 = q3" by simp
  have e0: "v = q1 * 64 + r0" unfolding q1_def r0_def by simp
  have e1: "q1 = q2 * 64 + r1" unfolding q2_def r1_def by simp
  have e2: "q2 = q3 * 64 + r2" unfolding q3_def r2_def by simp
  have "q3 * 262144 + r2 * 4096 + r1 * 64 + r0 = v"
    using e0 e1 e2 by linarith
  then show ?thesis
    unfolding d2 d3 m3 by (simp add: q1_def r0_def r1_def r2_def)
qed

lemma of_char_lt: "(of_char c :: nat) < 256"
proof -
  have "(of_char (char_of (of_char c :: nat)) :: nat) = of_char c mod 256"
    by (rule of_char_of)
  then have "(of_char c :: nat) = of_char c mod 256" by simp
  then show ?thesis
    by (metis mod_less_divisor zero_less_numeral)
qed

lemma byte0_of_val:
  fixes a b c :: nat
  assumes "b < 256" "c < 256"
  shows "(a * 65536 + b * 256 + c) div 65536 = a"
proof -
  have "b * 256 + c < 65536" using assms by linarith
  then have "(b * 256 + c + a * 65536) div 65536 = a" by simp
  then show ?thesis by (simp add: add.commute add.left_commute)
qed

lemma byte1_of_val:
  fixes a b c :: nat
  assumes "b < 256" "c < 256"
  shows "(a * 65536 + b * 256 + c) div 256 mod 256 = b"
proof -
  have "(c + (a * 256 + b) * 256) div 256 = a * 256 + b" using assms by simp
  moreover have "a * 65536 + b * 256 + c = c + (a * 256 + b) * 256" by simp
  ultimately have "(a * 65536 + b * 256 + c) div 256 = b + a * 256" by simp
  then show ?thesis using assms by simp
qed

lemma byte2_of_val:
  fixes a b c :: nat
  assumes "c < 256"
  shows "(a * 65536 + b * 256 + c) mod 256 = c"
proof -
  have "(c + (a * 256 + b) * 256) mod 256 = c mod 256" by (rule mod_mult_self1)
  then have "(c + (a * 256 + b) * 256) mod 256 = c" using assms by (simp only: mod_less)
  moreover have "a * 65536 + b * 256 + c = c + (a * 256 + b) * 256" by simp
  ultimately show ?thesis by (simp only:)
qed

lemma val_lt:
  fixes a b c :: nat
  assumes "a < 256" "b < 256" "c < 256"
  shows "a * 65536 + b * 256 + c < 16777216"
  using assms by linarith



lemma quantum_bytes_4:
  "quantum_bytes [s0, s1, s2, s3] =
     [char_of ((s0 * 262144 + s1 * 4096 + s2 * 64 + s3) div 65536),
      char_of ((s0 * 262144 + s1 * 4096 + s2 * 64 + s3) div 256),
      char_of (s0 * 262144 + s1 * 4096 + s2 * 64 + s3)]"
  by (simp add: quantum_bytes_def dbuf_at_def Let_def)

lemma quantum_bytes_3:
  "quantum_bytes [s0, s1, s2] =
     [char_of ((s0 * 262144 + s1 * 4096 + s2 * 64) div 65536),
      char_of ((s0 * 262144 + s1 * 4096 + s2 * 64) div 256)]"
  by (simp add: quantum_bytes_def dbuf_at_def Let_def)

lemma quantum_bytes_2:
  "quantum_bytes [s0, s1] = [char_of ((s0 * 262144 + s1 * 4096) div 65536)]"
  by (simp add: quantum_bytes_def dbuf_at_def Let_def)

lemma decode_sextets4:
  "quantum_bytes [(of_char a * 65536 + of_char b * 256 + of_char c) div 262144 mod 64,
                  (of_char a * 65536 + of_char b * 256 + of_char c) div 4096 mod 64,
                  (of_char a * 65536 + of_char b * 256 + of_char c) div 64 mod 64,
                  (of_char a * 65536 + of_char b * 256 + of_char c) mod 64] = [a, b, c]"
proof -
  define v :: nat where "v = of_char a * 65536 + of_char b * 256 + of_char c"
  have lt: "v < 16777216" unfolding v_def by (rule val_lt) (rule of_char_lt)+
  have b0: "char_of (v div 65536) = a"
    unfolding v_def by (simp only: byte0_of_val [OF of_char_lt of_char_lt] char_of_char)
  have "char_of (v div 256 mod 256) = b"
    unfolding v_def by (simp only: byte1_of_val [OF of_char_lt of_char_lt] char_of_char)
  then have b1: "char_of (v div 256) = b" by simp
  have "char_of (v mod 256) = c"
    unfolding v_def by (simp only: byte2_of_val [OF of_char_lt] char_of_char)
  then have b2: "char_of v = c" by simp
  show ?thesis
    unfolding v_def [symmetric]
    by (simp only: quantum_bytes_4 sextets_val [OF lt] b0 b1 b2)
qed

lemma decode_sextets3:
  "quantum_bytes [(of_char a * 65536 + of_char b * 256) div 262144 mod 64,
                  (of_char a * 65536 + of_char b * 256) div 4096 mod 64,
                  (of_char a * 65536 + of_char b * 256) div 64 mod 64] = [a, b]"
proof -
  define v :: nat where "v = of_char a * 65536 + of_char b * 256"
  have v0: "v = of_char a * 65536 + of_char b * 256 + 0" unfolding v_def by simp
  have lt: "v < 16777216" unfolding v0 by (rule val_lt) (simp_all add: of_char_lt)
  have b0: "char_of (v div 65536) = a"
    unfolding v0 by (simp only: byte0_of_val [OF of_char_lt] zero_less_numeral char_of_char)
  have "char_of (v div 256 mod 256) = b"
    unfolding v0 by (simp only: byte1_of_val [OF of_char_lt] zero_less_numeral char_of_char)
  then have b1: "char_of (v div 256) = b" by simp
  have "v = (of_char a * 1024 + of_char b * 4) * 64" unfolding v_def by simp
  then have m0: "v mod 64 = 0" by (simp only: mod_mult_self2_is_0)
  have valeq: "v div 262144 mod 64 * 262144 + v div 4096 mod 64 * 4096 + v div 64 mod 64 * 64 = v"
    using sextets_val [OF lt] m0 by linarith
  show ?thesis
    unfolding v_def [symmetric]
    by (simp only: quantum_bytes_3 valeq b0 b1)
qed

lemma decode_sextets2:
  "quantum_bytes [(of_char a * 65536) div 262144 mod 64,
                  (of_char a * 65536) div 4096 mod 64] = [a]"
proof -
  define v :: nat where "v = of_char a * 65536"
  have v0: "v = of_char a * 65536 + 0 * 256 + 0" unfolding v_def by simp
  have lt: "v < 16777216" unfolding v0 by (rule val_lt) (simp_all add: of_char_lt)
  have b0: "char_of (v div 65536) = a"
    unfolding v0 by (simp only: byte0_of_val zero_less_numeral char_of_char)
  have "v = (of_char a * 1024) * 64" unfolding v_def by simp
  then have m0: "v mod 64 = 0" by (simp only: mod_mult_self2_is_0)
  have "v div 64 = (of_char a * 16) * 64" unfolding v_def by simp
  then have m1: "v div 64 mod 64 = 0" by (simp only: mod_mult_self2_is_0)
  have valeq: "v div 262144 mod 64 * 262144 + v div 4096 mod 64 * 4096 = v"
    using sextets_val [OF lt] m0 m1 by linarith
  show ?thesis
    unfolding v_def [symmetric]
    by (simp only: quantum_bytes_2 valeq b0)
qed


lemma decodeMap_padChar: "decodeMap padChar = None"
  by (simp add: decodeMap_def padChar_def encodeStd_def)

lemma Decode_from_quad:
  "Decode_from [] (encode6 x0 # encode6 x1 # encode6 x2 # encode6 x3 # src) =
     (case Decode_from [] src of
        None \<Rightarrow> None
      | Some rest \<Rightarrow> Some (quantum_bytes [x0 mod 64, x1 mod 64, x2 mod 64, x3 mod 64] @ rest))"
  by (simp add: decodeMap_encode6 split: option.split)

lemma Decode_from_pad1:
  "Decode_from [] [encode6 x0, encode6 x1, encode6 x2, padChar] =
     Some (quantum_bytes [x0 mod 64, x1 mod 64, x2 mod 64])"
  by (simp add: decodeMap_encode6 decodeMap_padChar skipNL_def) (simp add: isNL_def padChar_def)

lemma Decode_from_pad2:
  "Decode_from [] [encode6 x0, encode6 x1, padChar, padChar] =
     Some (quantum_bytes [x0 mod 64, x1 mod 64])"
  by (simp add: decodeMap_encode6 decodeMap_padChar skipNL_def) (simp add: isNL_def padChar_def)

lemma DecodeString_EncodeToString: "DecodeString (EncodeToString s) = Some s"
  unfolding DecodeString_def
proof (induction s rule: EncodeToString.induct)
  case (1 a b c src)
  show ?case
    by (simp only: EncodeToString.simps Let_def Decode_from_quad "1.IH" decode_sextets4
        option.case append.simps)
next
  case (2 a b)
  show ?case
    by (simp only: EncodeToString.simps Let_def Decode_from_pad1 decode_sextets3)
next
  case (3 a)
  show ?case
    by (simp only: EncodeToString.simps Let_def Decode_from_pad2 decode_sextets2)
next
  case 4
  show ?case by simp
qed

lemmas b64_defs = encode6_def encodeStd_def padChar_def decodeMap_def isNL_def skipNL_def
  dbuf_at_def quantum_bytes_def DecodeString_def

lemmas scripted_simps = scripted_def healthy_def started_def fresh_def

subsection \<open>Encoding and decoding\<close>

text \<open>
  C3. For every string \<open>S\<close>: with the encoding \<open>utf8\<close> or \<open>base64\<close>, \<open>Encode\<close>
  succeeds and \<open>Decode\<close> of its result succeeds and gives \<open>S\<close> back; with any other
  encoding tag, \<open>Encode\<close> and \<open>Decode\<close> both fail with the error
  "invalid Encoding: " followed by the tag.
\<close>

theorem Encoding_round_trip:
  "((E = UTF8 \<or> E = Base64) \<longrightarrow>
      (\<exists>w. (Encoding_Encode E S :: 'n error + string) = Inr w
         \<and> (Encoding_Decode E w :: 'n error + string) = Inr S))
   \<and> ((E \<noteq> UTF8 \<and> E \<noteq> Base64) \<longrightarrow>
      (Encoding_Encode E S :: 'n error + string) = Inl (Errorf (''invalid Encoding: '' @ E))
      \<and> (Encoding_Decode E S :: 'n error + string) = Inl (Errorf (''invalid Encoding: '' @ E)))"
  by (auto simp: Encoding_Encode_def Encoding_Decode_def DecodeString_EncodeToString)

theorem Encoding_round_trip_witness:
  "(Encoding_Encode Base64 ''Man'' :: string error + string) = Inr ''TWFu''
   \<and> (Encoding_Decode Base64 ''TWFu'' :: string error + string) = Inr ''Man''
   \<and> (Encoding_Encode ''rot13'' ''Man'' :: string error + string)
        = Inl (Errorf ''invalid Encoding: rot13'')
   \<and> (Encoding_Decode ''rot13'' ''Man'' :: string error + string)
        = Inl (Errorf ''invalid Encoding: rot13'')"
  using Encoding_round_trip [of Base64 "''Man''", where 'n = string]
    Encoding_round_trip [of "''rot13''" "''Man''", where 'n = string]
  by (simp add: Encoding_Encode_def UTF8_def Base64_def b64_defs)

subsection \<open>Parse\<close>

text \<open>
  A call of \<open>Parse\<close> on a running driver with a usable encoding, whose write succeeds and
  whose read decodes a response \<open>r\<close>: the result is the classification of \<open>r\<close>, and the
  calls are one write and one read between the lock and the unlock.
\<close>

lemma Parse_decoded:
  fixes os :: "('w, 'j, 'n) collaborators"
  assumes "running d"
    and "(Encoding_Encode (ec d) src :: 'n error + string) = Inr str"
    and "enc d = Some e" and "dec d = Some dc"
    and "jsonlines_Encode os e \<lparr>Content = str, Encoding = ec d\<rparr> (world s) = (None, w1)"
    and "jsonlines_Decode os dc w1 = (Inr resp, w2)"
    and "parseResponse_UnmarshalJSON os resp = Inr r"
  shows "Parse os d src s =
           (Returns (classify r),
            \<lparr>world = w2,
             trace = trace s @ [EvLock, EvEncode e \<lparr>Content = str, Encoding = ec d\<rparr>,
                                EvDecode dc, EvUnlock]\<rparr>)"
  using assms
  by (simp add: Parse_def call_Encode_def call_Decode_def log_event_def)

lemma ToLower_UNKNOWN: "ToLower f ''UNKNOWN'' = ''unknown''"
  by (simp add: ToLower_def lower_ascii_def char_of_eq_iff take_bit_eq_mod)

text \<open>
  C1. For every response \<open>r\<close> that \<open>Parse\<close> decodes: with status "ok" it returns the
  decoded tree and a nil error; with status "error" it returns a nil tree and the
  partial-parse error that carries the decoded tree and the error strings of \<open>r\<close> in their
  order; with status "fatal" it returns a nil tree and the multi-error that carries the
  error strings of \<open>r\<close>.
\<close>

theorem Parse_classifies_by_status:
  fixes os :: "('w, 'j, 'n) collaborators"
  assumes "running d"
    and "(Encoding_Encode (ec d) src :: 'n error + string) = Inr str"
    and "enc d = Some e" and "dec d = Some dc"
    and "jsonlines_Encode os e \<lparr>Content = str, Encoding = ec d\<rparr> (world s) = (None, w1)"
    and "jsonlines_Decode os dc w1 = (Inr resp, w2)"
    and "parseResponse_UnmarshalJSON os resp = Inr r"
  shows "(Status r = ''ok'' \<longrightarrow> fst (Parse os d src s) = Returns (AST r, None))
       \<and> (Status r = ''error'' \<longrightarrow>
            fst (Parse os d src s) = Returns (None, Some (PartialParse (AST r) (Errors r))))
       \<and> (Status r = ''fatal'' \<longrightarrow>
            fst (Parse os d src s) = Returns (None, Some (MultiError (Errors r))))"
  unfolding Parse_decoded [OF assms]
  by (simp add: classify_def statusOK_def statusError_def statusFatal_def)

theorem Parse_classifies_by_status_witness:
  "fst (Parse scripted started ''x'' (fresh partial_reply))
     = Returns (None, Some (PartialParse (Some ''half'') [''E1'', ''E2'']))"
proof -
  let ?resp = "\<lparr>wire_status = Inr ''Error'', wire_errors = [''E1'', ''E2''], wire_ast = ''half''\<rparr>"
  let ?r = "\<lparr>Status = ''error'', Errors = [''E1'', ''E2''], AST = Some ''half''\<rparr>"
  have h1: "running started" by (simp add: started_def)
  have h2: "(Encoding_Encode (ec started) ''x'' :: string error + string) = Inr ''x''"
    by (simp add: started_def Encoding_Encode_def)
  have h3: "enc started = Some 3" and h4: "dec started = Some 4" by (simp_all add: started_def)
  have h5: "jsonlines_Encode scripted 3 \<lparr>Content = ''x'', Encoding = ec started\<rparr>
              (world (fresh partial_reply)) = (None, partial_reply)"
    by (simp add: scripted_simps partial_reply_def)
  have h6: "jsonlines_Decode scripted 4 partial_reply = (Inr ?resp, partial_reply)"
    by (simp add: scripted_simps partial_reply_def)
  have h7: "parseResponse_UnmarshalJSON scripted ?resp = Inr ?r"
    by (simp add: parseResponse_UnmarshalJSON_def status_UnmarshalJSON_def ToLower_def
        lower_ascii_def char_of_eq_iff take_bit_eq_mod scripted_def)
  show ?thesis
    using Parse_classifies_by_status [OF h1 h2 h3 h4 h5 h6 h7] by simp
qed

text \<open>
  C2. For every call of \<open>Parse\<close> whose write of the request fails with \<open>werr\<close>: the calls
  on the pipes are that one write followed by one raw read, between the lock and the
  unlock, so the write is not retried; no tree is returned; if the raw read fails, the
  error returned is the read error; if it gives the text \<open>raw\<close>, the error returned is
  "error: " followed by the text of \<open>werr\<close>, "; " and \<open>raw\<close>, which contains both.
\<close>

theorem Parse_write_failure:
  fixes os :: "('w, 'j, 'n) collaborators"
  assumes "running d"
    and "(Encoding_Encode (ec d) src :: 'n error + string) = Inr str"
    and "enc d = Some e" and "dec d = Some dc"
    and "jsonlines_Encode os e \<lparr>Content = str, Encoding = ec d\<rparr> (world s) = (Some werr, w1)"
    and "jsonlines_Decode_raw os dc w1 = (rr, w2)"
  shows "Parse os d src s =
           (Returns (None, Some (case rr of
                                   Inl rerr \<Rightarrow> External rerr
                                 | Inr raw \<Rightarrow> Errorf (''error: '' @ ext_Error werr @ ''; '' @ raw))),
            \<lparr>world = w2,
             trace = trace s @ [EvLock, EvEncode e \<lparr>Content = str, Encoding = ec d\<rparr>,
                                EvDecodeRaw dc, EvUnlock]\<rparr>)
       \<and> (\<forall>raw. rr = Inr raw \<longrightarrow>
            (\<exists>txt. fst (Parse os d src s) = Returns (None, Some (Errorf txt))
               \<and> sublist (ext_Error werr) txt \<and> sublist raw txt))"
proof -
  have parse: "Parse os d src s =
           (Returns (None, Some (case rr of
                                   Inl rerr \<Rightarrow> External rerr
                                 | Inr raw \<Rightarrow> Errorf (''error: '' @ ext_Error werr @ ''; '' @ raw))),
            \<lparr>world = w2,
             trace = trace s @ [EvLock, EvEncode e \<lparr>Content = str, Encoding = ec d\<rparr>,
                                EvDecodeRaw dc, EvUnlock]\<rparr>)"
    using assms
    by (cases rr) (simp_all add: Parse_def call_Encode_def call_Decode_raw_def log_event_def)
  have "sublist (ext_Error werr) (''error: '' @ ext_Error werr @ ''; '' @ raw)" for raw
    unfolding sublist_def by blast
  moreover have "sublist raw (''error: '' @ ext_Error werr @ ''; '' @ raw)" for raw :: string
    unfolding sublist_def by (metis append.assoc append_Nil2)
  ultimately show ?thesis
    unfolding parse by simp
qed

theorem Parse_write_failure_witness:
  "Parse scripted started ''x'' (fresh crashed) =
     (Returns (None, Some (Errorf ''error: write |1: broken pipe; core dumped'')),
      \<lparr>world = crashed,
       trace = [EvLock, EvEncode 3 \<lparr>Content = ''x'', Encoding = ''utf8''\<rparr>,
                EvDecodeRaw 4, EvUnlock]\<rparr>)"
proof -
  have h1: "running started" by (simp add: started_def)
  have h2: "(Encoding_Encode (ec started) ''x'' :: string error + string) = Inr ''x''"
    by (simp add: started_def Encoding_Encode_def)
  have h3: "enc started = Some 3" and h4: "dec started = Some 4" by (simp_all add: started_def)
  have h5: "jsonlines_Encode scripted 3 \<lparr>Content = ''x'', Encoding = ec started\<rparr>
              (world (fresh crashed)) = (Some (OtherError ''write |1: broken pipe''), crashed)"
    by (simp add: scripted_simps crashed_def)
  have h6: "jsonlines_Decode_raw scripted 4 crashed = (Inr ''core dumped'', crashed)"
    by (simp add: scripted_simps crashed_def)
  show ?thesis
    using Parse_write_failure [OF h1 h2 h3 h4 h5 h6]
    by (simp add: started_def UTF8_def fresh_def)
qed

text \<open>
  C5. For every driver whose running flag is not set, \<open>Parse\<close> returns a nil tree and
  \<open>ErrNotRunning\<close>, and the system is as it was: the world is unchanged and the trace has
  no new event, so the call made no write, no read and took no lock.
\<close>

theorem Parse_not_running:
  "\<not> running d \<Longrightarrow> Parse os d src s = (Returns (None, Some ErrNotRunning), s)"
  by (simp add: Parse_def)

theorem Parse_not_running_witness:
  "\<not> running (NewDriverAt Binary [] []) \<and>
   Parse scripted (NewDriverAt Binary [] []) ''x'' (fresh healthy)
     = (Returns (None, Some ErrNotRunning), fresh healthy)"
proof -
  have h: "\<not> running (NewDriverAt Binary [] [])" by (simp add: NewDriverAt_def)
  show ?thesis
    using h Parse_not_running [OF h, of scripted "''x''" "fresh healthy"] by simp
qed

text \<open>
  C6. For every response \<open>r\<close> that \<open>Parse\<close> decodes and whose status is none of "ok",
  "error" and "fatal": \<open>Parse\<close> returns a nil tree and the error
  "unsupported status: " followed by that status; and the status of \<open>r\<close> is the status
  string of the wire folded to lower case. The wire status "UNKNOWN" gives the error
  "unsupported status: unknown".
\<close>

theorem Parse_unsupported_status:
  fixes os :: "('w, 'j, 'n) collaborators"
  assumes "running d"
    and "(Encoding_Encode (ec d) src :: 'n error + string) = Inr str"
    and "enc d = Some e" and "dec d = Some dc"
    and "jsonlines_Encode os e \<lparr>Content = str, Encoding = ec d\<rparr> (world s) = (None, w1)"
    and "jsonlines_Decode os dc w1 = (Inr resp, w2)"
    and "parseResponse_UnmarshalJSON os resp = Inr r"
    and "Status r \<noteq> ''ok''" and "Status r \<noteq> ''error''" and "Status r \<noteq> ''fatal''"
  shows "fst (Parse os d src s) = Returns (None, Some (Errorf (''unsupported status: '' @ Status r)))
       \<and> (\<forall>wire. wire_status resp = Inr wire \<longrightarrow> Status r = ToLower (unicode_ToLower os) wire)"
proof -
  have "Parse os d src s =
           (Returns (classify r),
            \<lparr>world = w2,
             trace = trace s @ [EvLock, EvEncode e \<lparr>Content = str, Encoding = ec d\<rparr>,
                                EvDecode dc, EvUnlock]\<rparr>)"
    using assms(1-7) by (rule Parse_decoded)
  moreover have "classify r = (None, Some (Errorf (''unsupported status: '' @ Status r)))"
    using assms(8-10) by (simp add: classify_def statusOK_def statusError_def statusFatal_def)
  moreover have "\<forall>wire. wire_status resp = Inr wire \<longrightarrow> Status r = ToLower (unicode_ToLower os) wire"
    using assms(7)
    by (auto simp: parseResponse_UnmarshalJSON_def status_UnmarshalJSON_def
        split: sum.splits)
  ultimately show ?thesis by simp
qed

theorem Parse_unsupported_status_witness:
  "fst (Parse scripted started ''x'' (fresh unknown_reply))
     = Returns (None, Some (Errorf ''unsupported status: unknown''))"
proof -
  let ?resp = "\<lparr>wire_status = Inr ''UNKNOWN'', wire_errors = [], wire_ast = ''tree''\<rparr>"
  let ?r = "\<lparr>Status = ''unknown'', Errors = [], AST = Some ''tree''\<rparr>"
  have h1: "running started" by (simp add: started_def)
  have h2: "(Encoding_Encode (ec started) ''x'' :: string error + string) = Inr ''x''"
    by (simp add: started_def Encoding_Encode_def)
  have h3: "enc started = Some 3" and h4: "dec started = Some 4" by (simp_all add: started_def)
  have h5: "jsonlines_Encode scripted 3 \<lparr>Content = ''x'', Encoding = ec started\<rparr>
              (world (fresh unknown_reply)) = (None, unknown_reply)"
    by (simp add: scripted_simps unknown_reply_def)
  have h6: "jsonlines_Decode scripted 4 unknown_reply = (Inr ?resp, unknown_reply)"
    by (simp add: scripted_simps unknown_reply_def)
  have h7: "parseResponse_UnmarshalJSON scripted ?resp = Inr ?r"
    by (simp add: parseResponse_UnmarshalJSON_def status_UnmarshalJSON_def ToLower_UNKNOWN
        scripted_def)
  have h8: "Status ?r \<noteq> ''ok''" and h9: "Status ?r \<noteq> ''error''"
    and h10: "Status ?r \<noteq> ''fatal''"
    by simp_all
  show ?thesis
    using Parse_unsupported_status [OF h1 h2 h3 h4 h5 h6 h7 h8 h9 h10] by simp
qed

subsection \<open>Construction\<close>

text \<open>
  C10. A driver made by \<open>NewDriverAt\<close> with an empty path has the value of the package
  variable \<open>Binary\<close> as its path, which is "/opt/driver/bin/native" unless the variable was
  assigned; with an empty encoding it has the encoding "utf8"; a path or an encoding that
  is not empty is kept; \<open>NewDriver enc\<close> is \<open>NewDriverAt "" enc\<close>; and the driver made
  is not running.
\<close>

theorem NewDriverAt_defaults:
  "bin (NewDriverAt Binary [] e) = ''/opt/driver/bin/native''
   \<and> bin (NewDriverAt binary [] e) = binary
   \<and> (b \<noteq> [] \<longrightarrow> bin (NewDriverAt binary b e) = b)
   \<and> ec (NewDriverAt binary b []) = ''utf8''
   \<and> (e \<noteq> [] \<longrightarrow> ec (NewDriverAt binary b e) = e)
   \<and> NewDriver binary e = NewDriverAt binary [] e
   \<and> \<not> running (NewDriverAt binary b e)"
  by (simp add: NewDriverAt_def NewDriver_def Binary_def UTF8_def)

theorem NewDriverAt_defaults_witness:
  "NewDriver Binary [] =
     \<lparr>bin = ''/opt/driver/bin/native'', ec = ''utf8'', running = False, enc = None, dec = None,
      stdin = None, stdout = None, cmd = None\<rparr>
   \<and> bin (NewDriverAt Binary ''/bin/cat'' ''base64'') = ''/bin/cat''
   \<and> ec (NewDriverAt Binary ''/bin/cat'' ''base64'') = ''base64''"
  using NewDriverAt_defaults [of "[]" Binary "''/bin/cat''"]
    NewDriverAt_defaults [of "''base64''" Binary "''/bin/cat''"]
  by (simp add: NewDriverAt_def NewDriver_def Binary_def UTF8_def)

subsection \<open>Start\<close>

lemmas Start_calls = Start_def Let_def call_StdinPipe_def call_StdoutPipe_def call_Start_def
  call_Close_def log_event_def

lemma Start_StdinPipe_fails:
  assumes "cmd_StdinPipe os (bin d) (world s) = (Inl e1, w1)"
  shows "Start os d s =
           (Some e1, d\<lparr>cmd := Some (bin d)\<rparr>,
            \<lparr>world = w1, trace = trace s @ [EvStdinPipe (Inl e1)]\<rparr>)"
  using assms by (simp add: Start_calls)

lemma Start_StdoutPipe_fails:
  assumes "cmd_StdinPipe os (bin d) (world s) = (Inr inp, w1)"
    and "cmd_StdoutPipe os (bin d) w1 = (Inl e2, w2)"
    and "pipe_Close os inp w2 = (c1, w3)"
  shows "Start os d s =
           (Some e2, d\<lparr>cmd := Some (bin d)\<rparr>,
            \<lparr>world = w3,
             trace = trace s @ [EvStdinPipe (Inr inp), EvStdoutPipe (Inl e2), EvClose inp]\<rparr>)"
  using assms by (simp add: Start_calls)

lemma Start_cmd_Start_fails:
  assumes "cmd_StdinPipe os (bin d) (world s) = (Inr inp, w1)"
    and "cmd_StdoutPipe os (bin d) w1 = (Inr outp, w2)"
    and "cmd_Start os (bin d) w2 = (Some e3, w3)"
    and "pipe_Close os inp w3 = (c1, w4)"
    and "pipe_Close os outp w4 = (c2, w5)"
  shows "Start os d s =
           (Some e3,
            d\<lparr>cmd := Some (bin d), stdin := Some inp, stdout := Some outp,
               enc := Some inp, dec := Some outp\<rparr>,
            \<lparr>world = w5,
             trace = trace s @ [EvStdinPipe (Inr inp), EvStdoutPipe (Inr outp), EvStart,
                                EvClose inp, EvClose outp]\<rparr>)"
  using assms by (simp add: Start_calls)

lemma Start_succeeds:
  assumes "cmd_StdinPipe os (bin d) (world s) = (Inr inp, w1)"
    and "cmd_StdoutPipe os (bin d) w1 = (Inr outp, w2)"
    and "cmd_Start os (bin d) w2 = (None, w3)"
  shows "Start os d s =
           (None,
            d\<lparr>cmd := Some (bin d), stdin := Some inp, stdout := Some outp,
               enc := Some inp, dec := Some outp, running := True\<rparr>,
            \<lparr>world = w3,
             trace = trace s @ [EvStdinPipe (Inr inp), EvStdoutPipe (Inr outp), EvStart]\<rparr>)"
  using assms by (simp add: Start_calls)

lemma Start_healthy:
  "Start scripted (NewDriverAt Binary [] []) (fresh healthy) =
     (None, started,
      \<lparr>world = healthy, trace = [EvStdinPipe (Inr 3), EvStdoutPipe (Inr 4), EvStart]\<rparr>)"
  by (simp add: Start_calls NewDriverAt_def scripted_simps)

lemma Start_healthy_latin1:
  "Start scripted (NewDriverAt Binary [] ''latin1'') (fresh healthy) =
     (None, latin1,
      \<lparr>world = healthy, trace = [EvStdinPipe (Inr 3), EvStdoutPipe (Inr 4), EvStart]\<rparr>)"
  by (simp add: Start_calls NewDriverAt_def scripted_simps latin1_def)

lemma wired_NewDriverAt: "wired (NewDriverAt binary b e)"
  by (simp add: wired_def NewDriverAt_def Let_def)

lemma wired_Start: "wired d \<Longrightarrow> wired (fst (snd (Start os d s)))"
  by (auto simp: wired_def Start_def Let_def split: prod.splits sum.splits option.splits if_splits)

lemma Start_result_failure:
  assumes "Start os d s = (Some err, d', s')"
  shows "running d' = running d
       \<and> pipes_closed (new_events s s') = pipes_acquired (new_events s s')"
proof -
  obtain r1 w1 where p1: "cmd_StdinPipe os (bin d) (world s) = (r1, w1)"
    by (cases "cmd_StdinPipe os (bin d) (world s)")
  show ?thesis
  proof (cases r1)
    case (Inl e1)
    from Start_StdinPipe_fails [OF p1 [unfolded Inl]] assms
    show ?thesis by (auto simp: new_events_def)
  next
    case (Inr inp)
    note p1 = p1 [unfolded Inr]
    obtain r2 w2 where p2: "cmd_StdoutPipe os (bin d) w1 = (r2, w2)"
      by (cases "cmd_StdoutPipe os (bin d) w1")
    show ?thesis
    proof (cases r2)
      case (Inl e2)
      obtain c1 w3 where p3: "pipe_Close os inp w2 = (c1, w3)"
        by (cases "pipe_Close os inp w2")
      from Start_StdoutPipe_fails [OF p1 p2 [unfolded Inl] p3] assms
      show ?thesis by (auto simp: new_events_def)
    next
      case (Inr outp)
      note p2 = p2 [unfolded Inr]
      obtain r3 w3 where p3: "cmd_Start os (bin d) w2 = (r3, w3)"
        by (cases "cmd_Start os (bin d) w2")
      show ?thesis
      proof (cases r3)
        case None
        from Start_succeeds [OF p1 p2 p3 [unfolded None]] assms
        show ?thesis by simp
      next
        case (Some e3)
        obtain c1 w4 where p4: "pipe_Close os inp w3 = (c1, w4)"
          by (cases "pipe_Close os inp w3")
        obtain c2 w5 where p5: "pipe_Close os outp w4 = (c2, w5)"
          by (cases "pipe_Close os outp w4")
        from Start_cmd_Start_fails [OF p1 p2 p3 [unfolded Some] p4 p5] assms
        show ?thesis by (auto simp: new_events_def)
      qed
    qed
  qed
qed

text \<open>
  C7. For every call of \<open>Start\<close>: if acquiring the input pipe fails, \<open>Start\<close> returns
  that error and no pipe was acquired; if the input pipe is acquired and acquiring the
  output pipe fails, \<open>Start\<close> closes the input pipe and returns that error; if both pipes
  are acquired and starting the process fails, \<open>Start\<close> closes the input pipe and the
  output pipe and returns that error. In each case the running flag is as it was before
  the call. And whenever \<open>Start\<close> returns an error, the flag is as it was and the pipes
  the call acquired are the pipes it closed.
\<close>

theorem Start_failure_releases_pipes:
  "(cmd_StdinPipe os (bin d) (world s) = (Inl e1, w1) \<longrightarrow>
      Start os d s =
        (Some e1, d\<lparr>cmd := Some (bin d)\<rparr>,
         \<lparr>world = w1, trace = trace s @ [EvStdinPipe (Inl e1)]\<rparr>))
   \<and> (cmd_StdinPipe os (bin d) (world s) = (Inr inp, w1)
        \<and> cmd_StdoutPipe os (bin d) w1 = (Inl e2, w2)
        \<and> pipe_Close os inp w2 = (c1, w3) \<longrightarrow>
      Start os d s =
        (Some e2, d\<lparr>cmd := Some (bin d)\<rparr>,
         \<lparr>world = w3,
          trace = trace s @ [EvStdinPipe (Inr inp), EvStdoutPipe (Inl e2), EvClose inp]\<rparr>))
   \<and> (cmd_StdinPipe os (bin d) (world s) = (Inr inp, w1)
        \<and> cmd_StdoutPipe os (bin d) w1 = (Inr outp, w2)
        \<and> cmd_Start os (bin d) w2 = (Some e3, w3)
        \<and> pipe_Close os inp w3 = (c1, w4)
        \<and> pipe_Close os outp w4 = (c2, w5) \<longrightarrow>
      Start os d s =
        (Some e3,
         d\<lparr>cmd := Some (bin d), stdin := Some inp, stdout := Some outp,
            enc := Some inp, dec := Some outp\<rparr>,
         \<lparr>world = w5,
          trace = trace s @ [EvStdinPipe (Inr inp), EvStdoutPipe (Inr outp), EvStart,
                             EvClose inp, EvClose outp]\<rparr>))
   \<and> (fst (Start os d s) \<noteq> None \<longrightarrow>
        running (fst (snd (Start os d s))) = running d
        \<and> pipes_closed (new_events s (snd (snd (Start os d s))))
            = pipes_acquired (new_events s (snd (snd (Start os d s)))))"
proof (intro conjI impI)
  assume "fst (Start os d s) \<noteq> None"
  then obtain err d' s' where "Start os d s = (Some err, d', s')"
    by (cases "Start os d s") auto
  from Start_result_failure [OF this] this
  show "running (fst (snd (Start os d s))) = running d"
    and "pipes_closed (new_events s (snd (snd (Start os d s))))
            = pipes_acquired (new_events s (snd (snd (Start os d s))))"
    by simp_all
qed (auto intro: Start_StdinPipe_fails Start_StdoutPipe_fails Start_cmd_Start_fails)

theorem Start_failure_releases_pipes_witness:
  "cmd_StdinPipe scripted Binary refused = (Inr 3, refused)
   \<and> cmd_StdoutPipe scripted Binary refused = (Inl (OtherError ''too many open files''), refused)
   \<and> Start scripted (NewDriverAt Binary [] []) (fresh refused) =
        (Some (OtherError ''too many open files''),
         \<lparr>bin = Binary, ec = UTF8, running = False, enc = None, dec = None,
          stdin = None, stdout = None, cmd = Some Binary\<rparr>,
         \<lparr>world = refused,
          trace = [EvStdinPipe (Inr 3), EvStdoutPipe (Inl (OtherError ''too many open files'')),
                   EvClose 3]\<rparr>)
   \<and> cmd_Start scripted Binary no_exec = (Some (OtherError ''exec: not found''), no_exec)
   \<and> Start scripted (NewDriverAt Binary [] []) (fresh no_exec) =
        (Some (OtherError ''exec: not found''),
         \<lparr>bin = Binary, ec = UTF8, running = False, enc = Some 3, dec = Some 4,
          stdin = Some 3, stdout = Some 4, cmd = Some Binary\<rparr>,
         \<lparr>world = no_exec,
          trace = [EvStdinPipe (Inr 3), EvStdoutPipe (Inr 4), EvStart, EvClose 3, EvClose 4]\<rparr>)"
proof -
  let ?d = "NewDriverAt Binary [] []"
  have b: "bin ?d = Binary" by (simp add: NewDriverAt_def)
  have a1: "cmd_StdinPipe scripted (bin ?d) (world (fresh refused)) = (Inr 3, refused)"
    by (simp add: scripted_simps refused_def)
  have a2: "cmd_StdoutPipe scripted (bin ?d) refused
              = (Inl (OtherError ''too many open files''), refused)"
    by (simp add: scripted_simps refused_def)
  have a3: "pipe_Close scripted 3 refused = (None, refused)"
    by (simp add: scripted_simps refused_def)
  have b1: "cmd_StdinPipe scripted (bin ?d) (world (fresh no_exec)) = (Inr 3, no_exec)"
    by (simp add: scripted_simps no_exec_def)
  have b2: "cmd_StdoutPipe scripted (bin ?d) no_exec = (Inr 4, no_exec)"
    by (simp add: scripted_simps no_exec_def)
  have b3: "cmd_Start scripted (bin ?d) no_exec = (Some (OtherError ''exec: not found''), no_exec)"
    by (simp add: scripted_simps no_exec_def)
  have b4: "pipe_Close scripted 3 no_exec = (None, no_exec)"
    and b5: "pipe_Close scripted 4 no_exec = (None, no_exec)"
    by (simp_all add: scripted_simps no_exec_def)
  from a1 a2 a3
    Start_failure_releases_pipes [where os = scripted and d = ?d and s = "fresh refused"
      and inp = 3 and ?w1.0 = refused and ?e2.0 = "OtherError ''too many open files''"
      and ?w2.0 = refused and ?c1.0 = None and ?w3.0 = refused]
  have r1: "Start scripted ?d (fresh refused) =
        (Some (OtherError ''too many open files''), ?d\<lparr>cmd := Some (bin ?d)\<rparr>,
         \<lparr>world = refused,
          trace = trace (fresh refused) @
            [EvStdinPipe (Inr 3), EvStdoutPipe (Inl (OtherError ''too many open files'')),
             EvClose 3]\<rparr>)"
    by blast
  from b1 b2 b3 b4 b5
    Start_failure_releases_pipes [where os = scripted and d = ?d and s = "fresh no_exec"
      and inp = 3 and ?w1.0 = no_exec and outp = 4 and ?w2.0 = no_exec
      and ?e3.0 = "OtherError ''exec: not found''" and ?w3.0 = no_exec
      and ?c1.0 = None and ?w4.0 = no_exec and ?c2.0 = None and ?w5.0 = no_exec]
  have r2: "Start scripted ?d (fresh no_exec) =
        (Some (OtherError ''exec: not found''),
         ?d\<lparr>cmd := Some (bin ?d), stdin := Some 3, stdout := Some 4,
            enc := Some 3, dec := Some 4\<rparr>,
         \<lparr>world = no_exec,
          trace = trace (fresh no_exec) @
            [EvStdinPipe (Inr 3), EvStdoutPipe (Inr 4), EvStart, EvClose 3, EvClose 4]\<rparr>)"
    by blast
  show ?thesis
    using a1 a2 b3 r1 r2 by (simp add: NewDriverAt_def fresh_def)
qed

subsection \<open>Close\<close>

lemmas Close_calls = Close_def Let_def call_Close_def call_Wait_def log_event_def

lemma Close_steps:
  assumes "stdin d = Some inp" and "cmd d = Some c" and "stdout d = Some outp"
    and "pipe_Close os inp (world s) = (e1, w1)"
    and "cmd_Wait os c w1 = (e2, w2)"
    and "pipe_Close os outp w2 = (e3, w3)"
  shows "Close os d s =
           (Returns (if e2 \<noteq> None then e2
                     else if e3 \<noteq> None \<and> \<not> is_closed_PathError e3 then e3
                     else e1),
            d,
            \<lparr>world = w3, trace = trace s @ [EvClose inp, EvWait, EvClose outp]\<rparr>)"
  using assms by (auto simp: Close_calls is_closed_PathError_def)

lemma Close_keeps_driver: "fst (snd (Close os d s)) = d"
  by (simp add: Close_calls split: option.splits prod.splits)

text \<open>
  C4. \<open>Close\<close> on a driver whose pipes and command are set closes the input pipe, waits
  for the process and closes the output pipe, in this order. It returns the error of the
  wait if the wait failed; otherwise the error of closing the output pipe, unless that is
  nil or a path error holding \<open>os.ErrClosed\<close>; otherwise the error of closing the input
  pipe, which may be nil. If closing the input pipe and the wait succeed and the output
  pipe reports that it is already closed, \<open>Close\<close> returns nil. Whenever closing the input
  pipe succeeded, or the wait succeeded and closing the output pipe gave nil or the
  already-closed error, the result is the first error of the three steps. When closing the
  input pipe failed and the wait failed, the result is the error of the wait. When closing
  the input pipe failed, the wait succeeded and closing the output pipe failed with an
  error other than the already-closed one, the result is the error of the output pipe.
\<close>

theorem Close_result:
  assumes "stdin d = Some inp" and "cmd d = Some c" and "stdout d = Some outp"
    and "pipe_Close os inp (world s) = (e1, w1)"
    and "cmd_Wait os c w1 = (e2, w2)"
    and "pipe_Close os outp w2 = (e3, w3)"
  shows "Close os d s =
           (Returns (if e2 \<noteq> None then e2
                     else if e3 \<noteq> None \<and> \<not> is_closed_PathError e3 then e3
                     else e1),
            d,
            \<lparr>world = w3, trace = trace s @ [EvClose inp, EvWait, EvClose outp]\<rparr>)
       \<and> (e1 = None \<and> e2 = None \<and> is_closed_PathError e3 \<longrightarrow> fst (Close os d s) = Returns None)
       \<and> ((e1 = None \<or> (e2 = None \<and> (e3 = None \<or> is_closed_PathError e3))) \<longrightarrow>
            fst (Close os d s) = Returns (first_error e1 e2 e3))
       \<and> (e1 \<noteq> None \<and> e2 \<noteq> None \<longrightarrow> fst (Close os d s) = Returns e2)
       \<and> (e1 \<noteq> None \<and> e2 = None \<and> e3 \<noteq> None \<and> \<not> is_closed_PathError e3 \<longrightarrow>
            fst (Close os d s) = Returns e3)"
  unfolding Close_steps [OF assms]
  by (auto simp: first_error_def)

theorem Close_result_witness:
  "Close scripted started (fresh closed_twice) =
     (Returns None, started,
      \<lparr>world = closed_twice, trace = [EvClose 3, EvWait, EvClose 4]\<rparr>)"
proof -
  have h1: "stdin started = Some 3" and h2: "cmd started = Some Binary"
    and h3: "stdout started = Some 4"
    by (simp_all add: started_def)
  have h4: "pipe_Close scripted 3 (world (fresh closed_twice)) = (None, closed_twice)"
    by (simp add: scripted_simps closed_twice_def)
  have h5: "cmd_Wait scripted Binary closed_twice = (None, closed_twice)"
    by (simp add: scripted_simps closed_twice_def)
  have h6: "pipe_Close scripted 4 closed_twice
              = (Some (PathError ''close'' ''|0'' ErrClosed), closed_twice)"
    by (simp add: scripted_simps closed_twice_def)
  show ?thesis
    using Close_result [OF h1 h2 h3 h4 h5 h6]
    by (simp add: is_closed_PathError_def fresh_def)
qed

text \<open>
  The first error is not what \<open>Close\<close> returns when closing the input pipe fails and a
  later step fails too: with the input pipe failing with E1 and the wait with E2, the first
  error is E1 and \<open>Close\<close> returns E2.
\<close>

theorem Close_first_error_counterexample:
  "fst (Close scripted started (fresh two_failures)) = Returns (Some (OtherError ''E2''))
   \<and> first_error (fst (pipe_Close scripted 3 two_failures)) (fst (cmd_Wait scripted Binary two_failures))
        (fst (pipe_Close scripted 4 two_failures)) = Some (OtherError ''E1'')"
  by (simp add: Close_calls scripted_simps two_failures_def first_error_def is_closed_PathError_def)

subsection \<open>Parse after Close\<close>

lemma Parse_running_not_ErrNotRunning:
  "running d \<Longrightarrow> fst (Parse os d src s) \<noteq> Returns (None, Some ErrNotRunning)"
  by (auto simp: Parse_def Let_def classify_def Encoding_Encode_def
      split: option.splits prod.splits sum.splits)

lemma Parse_supported_writes:
  fixes os :: "('w, 'j, 'n) collaborators"
  assumes "running d" and "ec d = UTF8 \<or> ec d = Base64" and "enc d = Some e"
  shows "\<exists>str rest. trace (snd (Parse os d src s))
           = trace s @ EvLock # EvEncode e \<lparr>Content = str, Encoding = ec d\<rparr> # rest"
  using assms
  by (auto simp: Parse_def Let_def Encoding_Encode_def call_Encode_def call_Decode_def
      call_Decode_raw_def log_event_def
      split: option.splits prod.splits sum.splits)

lemma Parse_unsupported_encoding:
  fixes os :: "('w, 'j, 'n) collaborators"
  assumes "running d" and "ec d \<noteq> UTF8" and "ec d \<noteq> Base64"
  shows "Parse os d src s = (Returns (None, Some (Errorf (''invalid Encoding: '' @ ec d))), s)"
  using assms by (simp add: Parse_def Encoding_Encode_def)

lemma Close_trace:
  assumes "stdin d = Some inp" and "cmd d = Some c" and "stdout d = Some outp"
  shows "trace (snd (snd (Close os d s))) = trace s @ [EvClose inp, EvWait, EvClose outp]"
proof -
  obtain e1 w1 where p1: "pipe_Close os inp (world s) = (e1, w1)"
    by (cases "pipe_Close os inp (world s)")
  obtain e2 w2 where p2: "cmd_Wait os c w1 = (e2, w2)"
    by (cases "cmd_Wait os c w1")
  obtain e3 w3 where p3: "pipe_Close os outp w2 = (e3, w3)"
    by (cases "pipe_Close os outp w2")
  show ?thesis
    unfolding Close_steps [OF assms p1 p2 p3] by simp
qed

lemma Parse_supported_exchange:
  fixes os :: "('w, 'j, 'n) collaborators"
  assumes "running d" and "ec d = UTF8 \<or> ec d = Base64"
    and "enc d = Some inp" and "dec d = Some outp"
  shows "\<exists>str rest. (Encoding_Encode (ec d) src :: 'n error + string) = Inr str
           \<and> trace (snd (Parse os d src s))
               = trace s @ [EvLock, EvEncode inp \<lparr>Content = str, Encoding = ec d\<rparr>] @ rest
           \<and> (rest = [EvDecode outp, EvUnlock] \<or> rest = [EvDecodeRaw outp, EvUnlock])"
proof -
  obtain str where e: "(Encoding_Encode (ec d) src :: 'n error + string) = Inr str"
    using assms(2) by (cases "ec d = UTF8") (auto simp: Encoding_Encode_def)
  obtain r w where p: "jsonlines_Encode os inp \<lparr>Content = str, Encoding = ec d\<rparr> (world s) = (r, w)"
    by (cases "jsonlines_Encode os inp \<lparr>Content = str, Encoding = ec d\<rparr> (world s)")
  show ?thesis
  proof (cases r)
    case None
    with assms e p show ?thesis
      by (auto simp: Parse_def Let_def call_Encode_def call_Decode_def log_event_def
          split: prod.splits sum.splits)
  next
    case (Some werr)
    with assms e p show ?thesis
      by (auto simp: Parse_def Let_def call_Encode_def call_Decode_raw_def log_event_def
          split: prod.splits sum.splits)
  qed
qed

lemma Start_success_binds:
  assumes "Start os d0 s0 = (None, d, s1)"
  shows "running d \<and> cmd d = Some (bin d0)
       \<and> (\<exists>inp outp. stdin d = Some inp \<and> enc d = Some inp
             \<and> stdout d = Some outp \<and> dec d = Some outp)"
  using assms
  by (auto simp: Start_def Let_def split: prod.splits sum.splits option.splits)

text \<open>
  C8. \<open>Close\<close> never changes the running flag: for every driver the flag after the call
  is the flag before it. So a \<open>Parse\<close> after \<open>Close\<close> on a running driver is never
  rejected with \<open>ErrNotRunning\<close>. A driver that \<open>Start\<close> has started is running, and
  its encoder is bound to its input pipe and its decoder to its output pipe. On such a
  driver, if the encoding is \<open>utf8\<close> or \<open>base64\<close>, the \<open>Parse\<close> after \<open>Close\<close>
  takes the lock, writes the request to the input pipe that \<open>Close\<close> has closed and then
  reads from the output pipe that \<open>Close\<close> has closed. If the encoding is any other
  tag, the \<open>Parse\<close> fails with the invalid-encoding error and leaves the system as it
  was, without a call on the pipes.
\<close>

theorem Close_keeps_running:
  fixes os :: "('w, 'j, 'n) collaborators"
  assumes "Close os d s = (r, d', s')"
  shows "running d' = running d
   \<and> (running d \<longrightarrow> fst (Parse os d' src s') \<noteq> Returns (None, Some ErrNotRunning))
   \<and> (running d \<and> (ec d = UTF8 \<or> ec d = Base64) \<and> enc d = Some e \<longrightarrow>
        (\<exists>str rest. trace (snd (Parse os d' src s'))
           = trace s' @ EvLock # EvEncode e \<lparr>Content = str, Encoding = ec d\<rparr> # rest))
   \<and> (running d \<and> (ec d = UTF8 \<or> ec d = Base64)
        \<and> stdin d = Some inp \<and> enc d = Some inp
        \<and> stdout d = Some outp \<and> dec d = Some outp \<and> cmd d = Some c \<longrightarrow>
        (\<exists>str rest. (Encoding_Encode (ec d) src :: 'n error + string) = Inr str
           \<and> trace (snd (Parse os d' src s'))
               = trace s @ [EvClose inp, EvWait, EvClose outp,
                            EvLock, EvEncode inp \<lparr>Content = str, Encoding = ec d\<rparr>] @ rest
           \<and> (rest = [EvDecode outp, EvUnlock] \<or> rest = [EvDecodeRaw outp, EvUnlock])))
   \<and> (running d \<and> ec d \<noteq> UTF8 \<and> ec d \<noteq> Base64 \<longrightarrow>
        Parse os d' src s' = (Returns (None, Some (Errorf (''invalid Encoding: '' @ ec d))), s'))
   \<and> (Start os d0 s0 = (None, d, s1) \<longrightarrow>
        running d \<and> cmd d = Some (bin d0)
        \<and> (\<exists>inp outp. stdin d = Some inp \<and> enc d = Some inp
              \<and> stdout d = Some outp \<and> dec d = Some outp))
   \<and> (Start os d0 s0 = (None, d, s1) \<and> (ec d = UTF8 \<or> ec d = Base64) \<longrightarrow>
        (\<exists>p q str rest. stdin d = Some p \<and> stdout d = Some q
           \<and> (Encoding_Encode (ec d) src :: 'n error + string) = Inr str
           \<and> trace (snd (Parse os d' src s'))
               = trace s @ [EvClose p, EvWait, EvClose q,
                            EvLock, EvEncode p \<lparr>Content = str, Encoding = ec d\<rparr>] @ rest
           \<and> (rest = [EvDecode q, EvUnlock] \<or> rest = [EvDecodeRaw q, EvUnlock])))"
proof -
  have d': "d' = d"
    using Close_keeps_driver [of os d s] assms by simp
  have s': "s' = snd (snd (Close os d s))"
    using assms by simp
  have exchange: "\<exists>str rest. (Encoding_Encode (ec d) src :: 'n error + string) = Inr str
           \<and> trace (snd (Parse os d src s'))
               = trace s @ [EvClose inp, EvWait, EvClose outp,
                            EvLock, EvEncode inp \<lparr>Content = str, Encoding = ec d\<rparr>] @ rest
           \<and> (rest = [EvDecode outp, EvUnlock] \<or> rest = [EvDecodeRaw outp, EvUnlock])"
    if h: "running d" "ec d = UTF8 \<or> ec d = Base64" "stdin d = Some inp" "enc d = Some inp"
      "stdout d = Some outp" "dec d = Some outp" "cmd d = Some c"
    for inp outp c
  proof -
    have t: "trace s' = trace s @ [EvClose inp, EvWait, EvClose outp]"
      unfolding s' using h(3,7,5) by (rule Close_trace)
    from Parse_supported_exchange [OF h(1,2,4,6), where os = os and src = src and s = s']
    show ?thesis unfolding t by simp
  qed
  have started: "\<exists>p q str rest. stdin d = Some p \<and> stdout d = Some q
           \<and> (Encoding_Encode (ec d) src :: 'n error + string) = Inr str
           \<and> trace (snd (Parse os d src s'))
               = trace s @ [EvClose p, EvWait, EvClose q,
                            EvLock, EvEncode p \<lparr>Content = str, Encoding = ec d\<rparr>] @ rest
           \<and> (rest = [EvDecode q, EvUnlock] \<or> rest = [EvDecodeRaw q, EvUnlock])"
    if st: "Start os d0 s0 = (None, d, s1)" and sup: "ec d = UTF8 \<or> ec d = Base64"
  proof -
    from Start_success_binds [OF st] obtain p q
      where b: "running d" "cmd d = Some (bin d0)" "stdin d = Some p" "enc d = Some p"
        "stdout d = Some q" "dec d = Some q"
      by blast
    from exchange [OF b(1) sup b(3,4,5,6,2)] b(3,5) show ?thesis by blast
  qed
  show ?thesis
    unfolding d'
    using Parse_running_not_ErrNotRunning [of d os src s']
      Parse_supported_writes [of d e os src s'] Parse_unsupported_encoding [of d os src s']
      exchange [of inp outp c] Start_success_binds [of os d0 s0 d s1] started
    by blast
qed

theorem Close_keeps_running_witness:
  "Start closing (NewDriverAt Binary [] []) \<lparr>world = [], trace = []\<rparr> =
     (None, started,
      \<lparr>world = [], trace = [EvStdinPipe (Inr 3), EvStdoutPipe (Inr 4), EvStart]\<rparr>)
   \<and> Close closing started \<lparr>world = [], trace = []\<rparr> =
       (Returns None, started, \<lparr>world = [4, 3], trace = [EvClose 3, EvWait, EvClose 4]\<rparr>)
   \<and> Parse closing started ''x'' \<lparr>world = [4, 3], trace = [EvClose 3, EvWait, EvClose 4]\<rparr>
      = (Returns (None, Some (External (PathError ''read'' ''|0'' ErrClosed))),
         \<lparr>world = [4, 3],
          trace = [EvClose 3, EvWait, EvClose 4, EvLock,
                   EvEncode 3 \<lparr>Content = ''x'', Encoding = ''utf8''\<rparr>, EvDecodeRaw 4, EvUnlock]\<rparr>)"
proof -
  have st: "Start closing (NewDriverAt Binary [] []) \<lparr>world = [], trace = []\<rparr> =
     (None, started,
      \<lparr>world = [], trace = [EvStdinPipe (Inr 3), EvStdoutPipe (Inr 4), EvStart]\<rparr>)"
    by (simp add: Start_calls NewDriverAt_def closing_def started_def)
  have h: "Close closing started \<lparr>world = [], trace = []\<rparr> =
       (Returns None, started, \<lparr>world = [4, 3], trace = [EvClose 3, EvWait, EvClose 4]\<rparr>)"
    by (simp add: Close_calls closing_def started_def is_closed_PathError_def)
  have p: "Parse closing started ''x'' \<lparr>world = [4, 3], trace = [EvClose 3, EvWait, EvClose 4]\<rparr>
      = (Returns (None, Some (External (PathError ''read'' ''|0'' ErrClosed))),
         \<lparr>world = [4, 3],
          trace = [EvClose 3, EvWait, EvClose 4, EvLock,
                   EvEncode 3 \<lparr>Content = ''x'', Encoding = ''utf8''\<rparr>, EvDecodeRaw 4, EvUnlock]\<rparr>)"
    by (simp add: closing_def started_def Parse_def Encoding_Encode_def UTF8_def
        call_Encode_def call_Decode_raw_def log_event_def)
  show ?thesis
    using st h p
      Close_keeps_running [OF h, of "''x''" 3 3 4 Binary "NewDriverAt Binary [] []"
        "\<lparr>world = [], trace = []\<rparr>"
        "\<lparr>world = [], trace = [EvStdinPipe (Inr 3), EvStdoutPipe (Inr 4), EvStart]\<rparr>"]
    by simp
qed

text \<open>
  A \<open>Parse\<close> after \<open>Close\<close> on a started driver need not reach the pipes: the driver made
  with the encoding "latin1" starts, and after \<open>Close\<close> its \<open>Parse\<close> returns the
  invalid-encoding error with the trace unchanged.
\<close>

theorem Parse_after_Close_counterexample:
  "fst (Start scripted (NewDriverAt Binary [] ''latin1'') (fresh healthy)) = None
   \<and> fst (snd (Start scripted (NewDriverAt Binary [] ''latin1'') (fresh healthy))) = latin1
   \<and> running latin1
   \<and> Close scripted latin1 (fresh healthy) =
       (Returns None, latin1, \<lparr>world = healthy, trace = [EvClose 3, EvWait, EvClose 4]\<rparr>)
   \<and> Parse scripted latin1 ''x'' \<lparr>world = healthy, trace = [EvClose 3, EvWait, EvClose 4]\<rparr> =
       (Returns (None, Some (Errorf ''invalid Encoding: latin1'')),
        \<lparr>world = healthy, trace = [EvClose 3, EvWait, EvClose 4]\<rparr>)"
  by (simp add: Start_healthy_latin1)
    (simp add: latin1_def Close_calls scripted_simps Parse_def Encoding_Encode_def
      UTF8_def Base64_def is_closed_PathError_def)

end
